theory Spec2Isabelle
  imports Main
begin

section \<open>Run-time errors\<close>

text \<open>
  The Go run-time panics that the modelled functions can raise. A function that can
  panic returns \<open>error + 'a\<close>, with \<open>Inl\<close> for the panic.
\<close>

datatype error = SliceBoundsOutOfRange | NilPointerDereference

section \<open>The data model (command.go)\<close>

text \<open>
  Go function values (the data factory \<open>func() interface{}\<close>, the completion
  functions) are opaque: the code only stores them, calls them and compares them with
  \<open>nil\<close>. Each is identified by a number; a nullable one is a \<open>func option\<close>.
\<close>

datatype func = Func nat

text \<open>
  Pointers are addresses into a store: \<open>cref\<close> for \<open>*Command\<close>, \<open>gref\<close> for
  \<open>*commandGroup\<close> and \<open>fref\<close> for \<open>*flags.Command\<close>. An address is an index into
  the list of objects of its kind, a fresh object is appended, and a nullable pointer is an
  \<open>option\<close>.
\<close>

type_synonym cref = nat
type_synonym gref = nat
type_synonym fref = nat

text \<open>
  The closure \<open>spawner\<close> built by \<open>AddCommand\<close>: it captures \<open>name\<close>, \<open>short\<close>,
  \<open>long\<close> and \<open>data\<close>.
\<close>

datatype generator = Spawner string string string func

text \<open>
  \<open>optionGroup\<close> and \<open>commandGroup\<close> are declared outside the files at hand; their
  fields are the ones command.go reads (\<open>opt.short\<close>, \<open>opt.long\<close>, \<open>opt.generator\<close>;
  \<open>g.Name\<close>, \<open>grp.cmds\<close>). The field \<open>Name\<close> of a group is \<open>gName\<close> here, and the
  generator of an option group is \<open>ogenerator\<close>, since a record field is a constant of
  the theory.
\<close>

record optionGroup =
  short :: string
  long :: string
  ogenerator :: func

record commandGroup =
  gName :: string
  cmds :: "cref list"

record Command =
  Name :: string
  ShortDescription :: string
  LongDescription :: string
  Group :: string
  Filters :: "string list"
  SubcommandsOptional :: bool
  Data :: "func option"
  generator :: "generator option"
  cmd :: "fref option"
  opts :: "optionGroup list"
  groups :: "gref list"
  argComps :: "string \<rightharpoonup> func"
  argCompsDynamic :: "string \<rightharpoonup> func"
  optComps :: "string \<rightharpoonup> func"
  optCompsDynamic :: "string \<rightharpoonup> func"

text \<open>
  \<open>flags.Command\<close> of the go-flags library, as far as command.go touches it: the two
  flags it writes. The other fields are the arguments the handle was generated from.
\<close>

record flagsCommand =
  fName :: string
  fShort :: string
  fLong :: string
  fData :: func
  Hidden :: bool
  fSubcommandsOptional :: bool

record heap =
  commands :: "Command list"
  cgroups :: "commandGroup list"
  fcmds :: "flagsCommand list"

text \<open>
  \<open>Context\<close> and \<open>Console\<close> are declared outside the files at hand as well; the fields
  are the ones read or written by command.go and by the configuration file
  (\<open>cc.cmd\<close>, \<open>cc.parser\<close>, \<open>c.current.Name\<close>, \<open>c.current.Prompt\<close>, \<open>c.filters\<close>,
  \<open>c.parserOpts\<close>, \<open>c.config\<close>, \<open>c.shell\<close>, \<open>c.PreOutputNewline\<close>). The prompt and
  the parser are opaque objects of types \<open>'p\<close> and \<open>'q\<close>; the parser options are a
  number. \<open>c.current\<close> is a pointer to the current context; the record holds the
  context itself. Fields whose names are taken by \<open>Command\<close> carry a prefix.
\<close>

type_synonym InputMode = string

datatype readlineInputMode = Vim | Emacs

record PromptConfig =
  Left :: string
  Right :: string
  Newline :: bool
  Multiline :: bool
  MultilinePrompt :: string

record Config =
  cfInputMode :: InputMode
  Prompts :: "(string \<rightharpoonup> PromptConfig) option"
  Hints :: bool
  MaxTabCompleterRows :: int
  Highlighting :: "(string \<rightharpoonup> string) option"

record shell =
  shMultilinePrompt :: string
  shMultiline :: bool
  shInputMode :: readlineInputMode

record ('p, 'q) Context =
  ctxName :: string
  ctxPrompt :: 'p
  ctxCmd :: cref
  parser :: 'q

record ('p, 'q) Console =
  current :: "('p, 'q) Context"
  filters :: "string list"
  parserOpts :: nat
  config :: "Config option"
  cshell :: shell
  PreOutputNewline :: bool

section \<open>The filter set (command.go, HideCommands and ShowCommands)\<close>

text \<open>
  \<open>c.filters\<close> is a Go slice of strings. Between calls only its visible elements matter,
  so the field is a \<open>string list\<close>. Inside \<open>ShowCommands\<close> the slice is shortened while
  a \<open>range\<close> loop over its old header is still running, so the loop is modelled on the
  backing array \<open>a\<close> together with the current length \<open>m\<close> of \<open>c.filters\<close>.
\<close>

text \<open>
  The loop of \<open>HideCommands\<close>: \<open>True\<close> when some element equals the argument (the
  source returns from the function there).
\<close>

fun HideCommands_found :: "string \<Rightarrow> string list \<Rightarrow> bool" where
  "HideCommands_found flt [] = False"
| "HideCommands_found flt (f # fs) = (if f = flt then True else HideCommands_found flt fs)"

definition HideCommands_filters :: "string \<Rightarrow> string list \<Rightarrow> string list" where
  "HideCommands_filters flt fs = (if HideCommands_found flt fs then fs else fs @ [flt])"

text \<open>
  \<open>copy(c.filters[i:], c.filters[i+1:])\<close> on the backing array \<open>a\<close>, where \<open>c.filters\<close>
  is its first \<open>m\<close> elements and \<open>i + 1 \<le> m\<close>: the \<open>m - (i + 1)\<close> elements from index
  \<open>i + 1\<close> move one place to the left; every other cell keeps its value.
\<close>

definition copy_left :: "nat \<Rightarrow> nat \<Rightarrow> string list \<Rightarrow> string list" where
  "copy_left i m a = take i a @ take (m - (i + 1)) (drop (i + 1) a) @ drop (m - 1) a"

text \<open>
  The \<open>range\<close> loop of \<open>ShowCommands\<close>. \<open>n\<close> is the length of the slice when the loop
  started (the range expression is evaluated once), \<open>i\<close> the loop index, \<open>a\<close> the backing
  array and \<open>m\<close> the current length of \<open>c.filters\<close>. The element \<open>f\<close> is read from the
  array at every iteration. The slice expressions \<open>c.filters[i:]\<close> and
  \<open>c.filters[i+1:]\<close> panic when their lower bound exceeds the current length.
\<close>

function ShowCommands_loop ::
  "string \<Rightarrow> nat \<Rightarrow> nat \<Rightarrow> string list \<Rightarrow> nat \<Rightarrow> error + string list" where
  "ShowCommands_loop flt n i a m =
     (if i < n then
        (if a ! i = flt then
           (if m < i \<or> m < i + 1 then Inl SliceBoundsOutOfRange
            else ShowCommands_loop flt n (i + 1) ((copy_left i m a)[m - 1 := []]) (m - 1))
         else ShowCommands_loop flt n (i + 1) a m)
      else Inr (take m a))"
  by pat_completeness auto
termination
  by (relation "measure (\<lambda>(flt, n, i, a, m). n - i)") auto

declare ShowCommands_loop.simps [simp del]

definition ShowCommands_filters :: "string \<Rightarrow> string list \<Rightarrow> error + string list" where
  "ShowCommands_filters flt fs = ShowCommands_loop flt (length fs) 0 fs (length fs)"

definition HideCommands :: "string \<Rightarrow> ('p, 'q) Console \<Rightarrow> ('p, 'q) Console" where
  "HideCommands flt c = c\<lparr>filters := HideCommands_filters flt (filters c)\<rparr>"

definition ShowCommands :: "string \<Rightarrow> ('p, 'q) Console \<Rightarrow> error + ('p, 'q) Console" where
  "ShowCommands flt c =
     (case ShowCommands_filters flt (filters c) of
        Inl e \<Rightarrow> Inl e
      | Inr fs \<Rightarrow> Inr (c\<lparr>filters := fs\<rparr>))"

section \<open>Building the command tree (command.go)\<close>

text \<open>\<open>newCommand\<close>: a command with four empty completion maps, allocated in the store.\<close>

definition emptyCommand :: Command where
  "emptyCommand =
     \<lparr>Name = [], ShortDescription = [], LongDescription = [], Group = [], Filters = [],
      SubcommandsOptional = False, Data = None, generator = None, cmd = None, opts = [],
      groups = [], argComps = Map.empty, argCompsDynamic = Map.empty,
      optComps = Map.empty, optCompsDynamic = Map.empty\<rparr>"

definition newCommand :: "heap \<Rightarrow> heap \<times> cref" where
  "newCommand h = (h\<lparr>commands := commands h @ [emptyCommand]\<rparr>, length (commands h))"

text \<open>
  The first loop of \<open>AddCommand\<close>: \<open>grp\<close> is overwritten at every group whose name
  matches and the loop has no \<open>break\<close>, so the last match stays.
\<close>

fun AddCommand_find :: "heap \<Rightarrow> string \<Rightarrow> gref list \<Rightarrow> gref option \<Rightarrow> gref option" where
  "AddCommand_find h gname [] grp = grp"
| "AddCommand_find h gname (g # gs) grp =
     AddCommand_find h gname gs (if gName (cgroups h ! g) = gname then Some g else grp)"

text \<open>
  The struct literal of \<open>AddCommand\<close>: the new node. The fields that the literal does
  not name (\<open>SubcommandsOptional\<close>, \<open>Data\<close>, \<open>cmd\<close>, \<open>opts\<close>, \<open>groups\<close>) have
  their zero values; the data factory lives on in the generator only.
\<close>

definition AddCommand_node ::
  "string \<Rightarrow> string \<Rightarrow> string \<Rightarrow> string \<Rightarrow> string list \<Rightarrow> func \<Rightarrow> Command" where
  "AddCommand_node name shortd longd gname flts d =
     \<lparr>Name = name, ShortDescription = shortd, LongDescription = longd,
      Group = gname, Filters = flts, SubcommandsOptional = False,
      Data = None, generator = Some (Spawner name shortd longd d),
      cmd = None, opts = [], groups = [],
      argComps = Map.empty, argCompsDynamic = Map.empty,
      optComps = Map.empty, optCompsDynamic = Map.empty\<rparr>"

text \<open>
  \<open>Command.AddCommand\<close>. The receiver is the address \<open>c\<close>; the parameter \<open>group\<close> of
  the source is \<open>gname\<close>. The result is the new store and the returned pointer
  (\<open>None\<close> is \<open>nil\<close>). A new group is appended to the groups of the receiver; the new
  node is appended to the commands of the group found or created.
\<close>

definition AddCommand ::
  "heap \<Rightarrow> cref \<Rightarrow> string \<Rightarrow> string \<Rightarrow> string \<Rightarrow> string \<Rightarrow> string list \<Rightarrow> func option
     \<Rightarrow> heap \<times> cref option" where
  "AddCommand h c name shortd longd gname flts data =
     (case data of
        None \<Rightarrow> (h, None)
      | Some d \<Rightarrow>
          (let (h1, grp) =
                 (case AddCommand_find h gname (groups (commands h ! c)) None of
                    Some g \<Rightarrow> (h, g)
                  | None \<Rightarrow>
                      (h\<lparr>commands := (commands h)
                            [c := (commands h ! c)\<lparr>groups := groups (commands h ! c) @ [length (cgroups h)]\<rparr>],
                         cgroups := cgroups h @ [\<lparr>gName = gname, cmds = []\<rparr>]\<rparr>,
                       length (cgroups h)));
               command = length (commands h1);
               h2 = h1\<lparr>commands := commands h1 @ [AddCommand_node name shortd longd gname flts d]\<rparr>;
               h3 = h2\<lparr>cgroups := (cgroups h2)
                         [grp := (cgroups h2 ! grp)\<lparr>cmds := cmds (cgroups h2 ! grp) @ [command]\<rparr>]\<rparr>
           in (h3, Some command)))"

text \<open>\<open>Command.GoFlagsCommands\<close>: the handles of the children, the \<open>nil\<close> ones left out.\<close>

fun GoFlagsCommands_cmds :: "heap \<Rightarrow> cref list \<Rightarrow> fref list \<Rightarrow> fref list" where
  "GoFlagsCommands_cmds h [] acc = acc"
| "GoFlagsCommands_cmds h (r # rs) acc =
     GoFlagsCommands_cmds h rs
       (case cmd (commands h ! r) of None \<Rightarrow> acc | Some f \<Rightarrow> acc @ [f])"

fun GoFlagsCommands_groups :: "heap \<Rightarrow> gref list \<Rightarrow> fref list \<Rightarrow> fref list" where
  "GoFlagsCommands_groups h [] acc = acc"
| "GoFlagsCommands_groups h (g # gs) acc =
     GoFlagsCommands_groups h gs (GoFlagsCommands_cmds h (cmds (cgroups h ! g)) acc)"

definition GoFlagsCommands :: "heap \<Rightarrow> cref \<Rightarrow> fref list" where
  "GoFlagsCommands h c = GoFlagsCommands_groups h (groups (commands h ! c)) []"

text \<open>\<open>Command.Commands\<close>: the children of every group, appended one by one.\<close>

fun Commands_cmds :: "cref list \<Rightarrow> cref list \<Rightarrow> cref list" where
  "Commands_cmds [] acc = acc"
| "Commands_cmds (r # rs) acc = Commands_cmds rs (acc @ [r])"

fun Commands_groups :: "heap \<Rightarrow> gref list \<Rightarrow> cref list \<Rightarrow> cref list" where
  "Commands_groups h [] acc = acc"
| "Commands_groups h (g # gs) acc =
     Commands_groups h gs (Commands_cmds (cmds (cgroups h ! g)) acc)"

definition Commands :: "heap \<Rightarrow> cref \<Rightarrow> cref list" where
  "Commands h c = Commands_groups h (groups (commands h ! c)) []"

definition CommandGroups :: "heap \<Rightarrow> cref \<Rightarrow> gref list" where
  "CommandGroups h c = groups (commands h ! c)"

definition OptionGroups :: "heap \<Rightarrow> cref \<Rightarrow> optionGroup list" where
  "OptionGroups h c = opts (commands h ! c)"

text \<open>\<open>Command.Add\<close>: the argument is a pointer to a populated struct.\<close>

definition Add :: "heap \<Rightarrow> cref \<Rightarrow> cref \<Rightarrow> heap \<times> cref option" where
  "Add h c p =
     AddCommand h c (Name (commands h ! p)) (ShortDescription (commands h ! p))
       (LongDescription (commands h ! p)) (Group (commands h ! p))
       (Filters (commands h ! p)) (Data (commands h ! p))"

definition Console_AddCommand ::
  "('p, 'q) Console \<Rightarrow> heap \<Rightarrow> string \<Rightarrow> string \<Rightarrow> string \<Rightarrow> string \<Rightarrow> string list
     \<Rightarrow> func option \<Rightarrow> heap \<times> cref option" where
  "Console_AddCommand c h name shortd longd gname flts data =
     AddCommand h (ctxCmd (current c)) name shortd longd gname flts data"

text \<open>
  Modelled from the spec: \<open>Context.AddCommand\<close>, which \<open>Console.Add\<close> calls, is not in
  the files at hand. A context is one command tree under a root node, and adding to the
  context adds under that root, as \<open>Console.AddCommand\<close> does with
  \<open>c.current.cmd.AddCommand\<close>.
\<close>

definition Context_AddCommand ::
  "('p, 'q) Context \<Rightarrow> heap \<Rightarrow> string \<Rightarrow> string \<Rightarrow> string \<Rightarrow> string \<Rightarrow> string list
     \<Rightarrow> func option \<Rightarrow> heap \<times> cref option" where
  "Context_AddCommand cc h name shortd longd gname flts data =
     AddCommand h (ctxCmd cc) name shortd longd gname flts data"

definition Console_Add :: "('p, 'q) Console \<Rightarrow> heap \<Rightarrow> cref \<Rightarrow> heap \<times> cref option" where
  "Console_Add c h p =
     Context_AddCommand (current c) h (Name (commands h ! p)) (ShortDescription (commands h ! p))
       (LongDescription (commands h ! p)) (Group (commands h ! p))
       (Filters (commands h ! p)) (Data (commands h ! p))"

text \<open>
  \<open>Command.FindCommand\<close> and \<open>Console.FindCommand\<close>: two nested loops that return at
  the first child whose name matches; \<open>None\<close> is the \<open>nil\<close> of the named result.
\<close>

fun FindCommand_cmds :: "heap \<Rightarrow> string \<Rightarrow> cref list \<Rightarrow> cref option" where
  "FindCommand_cmds h name [] = None"
| "FindCommand_cmds h name (r # rs) =
     (if Name (commands h ! r) = name then Some r else FindCommand_cmds h name rs)"

fun FindCommand_groups :: "heap \<Rightarrow> string \<Rightarrow> gref list \<Rightarrow> cref option" where
  "FindCommand_groups h name [] = None"
| "FindCommand_groups h name (g # gs) =
     (case FindCommand_cmds h name (cmds (cgroups h ! g)) of
        Some r \<Rightarrow> Some r
      | None \<Rightarrow> FindCommand_groups h name gs)"

definition FindCommand :: "heap \<Rightarrow> cref \<Rightarrow> string \<Rightarrow> cref option" where
  "FindCommand h c name = FindCommand_groups h name (groups (commands h ! c))"

definition Console_FindCommand :: "('p, 'q) Console \<Rightarrow> heap \<Rightarrow> string \<Rightarrow> cref option" where
  "Console_FindCommand c h name =
     FindCommand_groups h name (groups (commands h ! ctxCmd (current c)))"

text \<open>
  \<open>Console.GetCommands\<close>: the map from group name to the handles of the group's
  commands (a handle may be \<open>nil\<close>, written \<open>None\<close>), and the group names in order.
  Reading a key that the map does not have gives the nil slice.
\<close>

fun GetCommands_cmds ::
  "heap \<Rightarrow> string \<Rightarrow> cref list \<Rightarrow> (string \<rightharpoonup> fref option list) \<Rightarrow> (string \<rightharpoonup> fref option list)" where
  "GetCommands_cmds h gn [] m = m"
| "GetCommands_cmds h gn (r # rs) m =
     GetCommands_cmds h gn rs
       (m(gn \<mapsto> (case m gn of None \<Rightarrow> [] | Some l \<Rightarrow> l) @ [cmd (commands h ! r)]))"

fun GetCommands_groups ::
  "heap \<Rightarrow> gref list \<Rightarrow> (string \<rightharpoonup> fref option list) \<times> string list
     \<Rightarrow> (string \<rightharpoonup> fref option list) \<times> string list" where
  "GetCommands_groups h [] (m, groupNames) = (m, groupNames)"
| "GetCommands_groups h (g # gs) (m, groupNames) =
     GetCommands_groups h gs
       (GetCommands_cmds h (gName (cgroups h ! g)) (cmds (cgroups h ! g)) m,
        groupNames @ [gName (cgroups h ! g)])"

definition GetCommands ::
  "('p, 'q) Console \<Rightarrow> heap \<Rightarrow> (string \<rightharpoonup> fref option list) \<times> string list" where
  "GetCommands c h =
     GetCommands_groups h (groups (commands h ! ctxCmd (current c))) (Map.empty, [])"

section \<open>The rebuild cycle (command.go, bindCommands and hideCommands)\<close>

text \<open>
  The loops of \<open>hideCommands\<close>, innermost first. The two inner loops answer whether
  some filter of the command equals some active filter; at the first hit the source sets
  \<open>cmd.cmd.Hidden\<close> and continues with the next command of the group. Commands whose
  handle is \<open>nil\<close> are passed over. Only the groups of the root node of the current
  context are walked.
\<close>

fun hideCommands_filters :: "string \<Rightarrow> string list \<Rightarrow> bool" where
  "hideCommands_filters cmdFilter [] = False"
| "hideCommands_filters cmdFilter (f # fs) =
     (if f = cmdFilter then True else hideCommands_filters cmdFilter fs)"

fun hideCommands_cmdFilters :: "string list \<Rightarrow> string list \<Rightarrow> bool" where
  "hideCommands_cmdFilters [] fs = False"
| "hideCommands_cmdFilters (cmdFilter # cfs) fs =
     (if hideCommands_filters cmdFilter fs then True else hideCommands_cmdFilters cfs fs)"

fun hideCommands_cmds :: "string list \<Rightarrow> cref list \<Rightarrow> heap \<Rightarrow> heap" where
  "hideCommands_cmds fs [] h = h"
| "hideCommands_cmds fs (r # rs) h =
     hideCommands_cmds fs rs
       (case cmd (commands h ! r) of
          None \<Rightarrow> h
        | Some f \<Rightarrow>
            (if hideCommands_cmdFilters (Filters (commands h ! r)) fs
             then h\<lparr>fcmds := (fcmds h)[f := (fcmds h ! f)\<lparr>Hidden := True\<rparr>]\<rparr>
             else h))"

fun hideCommands_groups :: "string list \<Rightarrow> gref list \<Rightarrow> heap \<Rightarrow> heap" where
  "hideCommands_groups fs [] h = h"
| "hideCommands_groups fs (g # gs) h =
     hideCommands_groups fs gs (hideCommands_cmds fs (cmds (cgroups h ! g)) h)"

definition hideCommands :: "('p, 'q) Console \<Rightarrow> heap \<Rightarrow> heap" where
  "hideCommands c h =
     hideCommands_groups (filters c) (groups (commands h ! ctxCmd (current c))) h"

text \<open>
  \<open>bindCommands\<close> calls three operations that are not in the files at hand:
  \<open>Context.initParser\<close>, \<open>AddGroup\<close> of the go-flags parser (on the value of
  \<open>opt.generator()\<close>) and \<open>Console.bindCommandGroup\<close>. They are parameters: each is
  any function on the console and the store. The root node is read through
  \<open>c.current\<close> after each step, so the parameters are taken to leave the pointer to the
  current context in place.
\<close>

record ('p, 'q) env =
  initParser :: "nat \<Rightarrow> ('p, 'q) Console \<times> heap \<Rightarrow> ('p, 'q) Console \<times> heap"
  AddGroup :: "string \<Rightarrow> string \<Rightarrow> func \<Rightarrow> ('p, 'q) Console \<times> heap \<Rightarrow> ('p, 'q) Console \<times> heap"
  bindCommandGroup :: "gref \<Rightarrow> ('p, 'q) Console \<times> heap \<Rightarrow> ('p, 'q) Console \<times> heap"

fun bindCommands_opts ::
  "('p, 'q) env \<Rightarrow> optionGroup list \<Rightarrow> ('p, 'q) Console \<times> heap \<Rightarrow> ('p, 'q) Console \<times> heap" where
  "bindCommands_opts E [] w = w"
| "bindCommands_opts E (opt # os) w =
     bindCommands_opts E os (AddGroup E (short opt) (long opt) (ogenerator opt) w)"

fun bindCommands_groups ::
  "('p, 'q) env \<Rightarrow> gref list \<Rightarrow> ('p, 'q) Console \<times> heap \<Rightarrow> ('p, 'q) Console \<times> heap" where
  "bindCommands_groups E [] w = w"
| "bindCommands_groups E (g # gs) w = bindCommands_groups E gs (bindCommandGroup E g w)"

definition root :: "('p, 'q) Console \<times> heap \<Rightarrow> Command" where
  "root w = commands (snd w) ! ctxCmd (current (fst w))"

definition bindCommands ::
  "('p, 'q) env \<Rightarrow> ('p, 'q) Console \<times> heap \<Rightarrow> ('p, 'q) Console \<times> heap" where
  "bindCommands E w =
     (let w1 = initParser E (parserOpts (fst w)) w;
          w2 = bindCommands_opts E (opts (root w1)) w1;
          w3 = bindCommands_groups E (groups (root w2)) w2
      in (fst w3, hideCommands (fst w3) (snd w3)))"

section \<open>The configuration (LoadConfig and reloadConfig)\<close>

text \<open>
  \<open>InputMode\<close> is a string type with two named values. \<open>readline.BOLD\<close> and
  \<open>readline.FOREWHITE\<close> are constants of the readline library; the functions that use
  them take them as the parameters \<open>bold\<close> and \<open>forewhite\<close>. A map field that is
  \<open>nil\<close> is \<open>None\<close>. The values of \<open>Prompts\<close> are pointers; reading a key that the
  map does not have gives \<open>nil\<close>, which is \<open>None\<close> here.
\<close>

definition InputVim :: InputMode where
  "InputVim = ''vim''"

definition InputEmacs :: InputMode where
  "InputEmacs = ''emacs''"

definition defaultHighlighting :: "string \<Rightarrow> string \<Rightarrow> (string \<rightharpoonup> string)" where
  "defaultHighlighting bold forewhite =
     [''{command}'' \<mapsto> bold, ''{command-argument}'' \<mapsto> forewhite, ''{option}'' \<mapsto> bold,
      ''{option-argument}'' \<mapsto> forewhite, ''{hint-text}'' \<mapsto> CHR 0x1B # ''[38;5;248m'']"

definition NewDefaultConfig :: "string \<Rightarrow> string \<Rightarrow> Config" where
  "NewDefaultConfig bold forewhite =
     \<lparr>cfInputMode = InputVim, Prompts = Some Map.empty, Hints = True,
      MaxTabCompleterRows = 50, Highlighting = Some (defaultHighlighting bold forewhite)\<rparr>"

definition newDefaultPromptConfig :: "string \<Rightarrow> PromptConfig" where
  "newDefaultPromptConfig menu =
     \<lparr>Left = ''gonsole ('' @ menu @ '')'', Right = [], Newline = True, Multiline = True,
      MultilinePrompt = '' > ''\<rparr>"

text \<open>
  \<open>reloadConfig\<close>. \<open>Prompt.loadFromConfig\<close> is not in the files at hand: it is the
  parameter \<open>lfc\<close>, which gets the entry (maybe \<open>nil\<close>) and the prompt, and returns the
  new prompt or panics. The three statements after it read a field through the entry, so
  they panic on a \<open>nil\<close> entry. The read lock is left out.
\<close>

definition promptEntry :: "Config \<Rightarrow> string \<Rightarrow> PromptConfig option" where
  "promptEntry cf name = (case Prompts cf of None \<Rightarrow> None | Some m \<Rightarrow> m name)"

definition reloadConfig ::
  "(PromptConfig option \<Rightarrow> 'p \<Rightarrow> error + 'p) \<Rightarrow> ('p, 'q) Console \<Rightarrow> error + ('p, 'q) Console" where
  "reloadConfig lfc c =
     (case config c of
        None \<Rightarrow> Inl NilPointerDereference
      | Some cf \<Rightarrow>
          (case lfc (promptEntry cf (ctxName (current c))) (ctxPrompt (current c)) of
             Inl e \<Rightarrow> Inl e
           | Inr p \<Rightarrow>
               (case promptEntry cf (ctxName (current c)) of
                  None \<Rightarrow> Inl NilPointerDereference
                | Some pc \<Rightarrow>
                    Inr (c\<lparr>current := (current c)\<lparr>ctxPrompt := p\<rparr>,
                           cshell := \<lparr>shMultilinePrompt = MultilinePrompt pc,
                                      shMultiline = Multiline pc,
                                      shInputMode = (if cfInputMode cf = InputEmacs then Emacs else Vim)\<rparr>,
                           PreOutputNewline := Newline pc\<rparr>))))"

text \<open>
  \<open>LoadConfig\<close>. A \<open>nil\<close> configuration returns at once. A \<open>nil\<close> \<open>Prompts\<close> map is
  replaced by a map with the one key \<open>""\<close>, a \<open>nil\<close> \<open>Highlighting\<close> map by the
  defaults; then the configuration is stored and \<open>reloadConfig\<close> runs.
\<close>

definition LoadConfig ::
  "(PromptConfig option \<Rightarrow> 'p \<Rightarrow> error + 'p) \<Rightarrow> string \<Rightarrow> string \<Rightarrow> Config option
     \<Rightarrow> ('p, 'q) Console \<Rightarrow> error + ('p, 'q) Console" where
  "LoadConfig lfc bold forewhite conf c =
     (case conf of
        None \<Rightarrow> Inr c
      | Some cf \<Rightarrow>
          (let cf1 = (case Prompts cf of
                        None \<Rightarrow> cf\<lparr>Prompts := Some [[] \<mapsto>
                                  \<lparr>Left = ''gonsole'', Right = [], Newline = True,
                                   Multiline = True, MultilinePrompt = '' > ''\<rparr>]\<rparr>
                      | Some m \<Rightarrow> cf);
               cf2 = (case Highlighting cf1 of
                        None \<Rightarrow> cf1\<lparr>Highlighting := Some (defaultHighlighting bold forewhite)\<rparr>
                      | Some m \<Rightarrow> cf1)
           in reloadConfig lfc (c\<lparr>config := Some cf2\<rparr>)))"

definition loadDefaultConfig :: "string \<Rightarrow> string \<Rightarrow> ('p, 'q) Console \<Rightarrow> ('p, 'q) Console" where
  "loadDefaultConfig bold forewhite c =
     c\<lparr>config := Some ((NewDefaultConfig bold forewhite)
                \<lparr>Prompts := Some [[] \<mapsto> newDefaultPromptConfig []]\<rparr>)\<rparr>"

section \<open>Sequences of calls and the view of a node's children\<close>

text \<open>
  The arguments of one \<open>AddCommand\<close> call, and a run of calls on one receiver: the store
  is threaded through and the returned pointers are collected in call order.
\<close>

record call =
  callName :: string
  callShort :: string
  callLong :: string
  callGroup :: string
  callFilters :: "string list"
  callData :: "func option"

fun AddCommands :: "heap \<Rightarrow> cref \<Rightarrow> call list \<Rightarrow> heap \<times> cref option list" where
  "AddCommands h c [] = (h, [])"
| "AddCommands h c (a # as) =
     (let (h1, r) = AddCommand h c (callName a) (callShort a) (callLong a) (callGroup a)
                      (callFilters a) (callData a);
          (h2, rs) = AddCommands h1 c as
      in (h2, r # rs))"

text \<open>
  \<open>first_occ xs\<close> lists the elements of \<open>xs\<close> once each, in the order of their first
  occurrence. \<open>grouped\<close> turns a list of (group name, item) pairs into the groups in
  first-occurrence order, each with its items in list order.
\<close>

definition first_occ :: "'a list \<Rightarrow> 'a list" where
  "first_occ xs = rev (remdups (rev xs))"

definition grouped :: "('a \<times> 'b) list \<Rightarrow> ('a \<times> 'b list) list" where
  "grouped grs = map (\<lambda>g. (g, map snd (filter (\<lambda>p. fst p = g) grs))) (first_occ (map fst grs))"

definition add_view :: "(string \<times> cref list) list \<Rightarrow> string \<Rightarrow> cref \<Rightarrow> (string \<times> cref list) list" where
  "add_view v g r =
     (if g \<in> fst ` set v then map (\<lambda>(n, rs). if n = g then (n, rs @ [r]) else (n, rs)) v
      else v @ [(g, [r])])"

text \<open>
  The groups of the node at \<open>c\<close> as the store has them, name and children, in order; and
  the well-formedness of the node: it is allocated, its group pointers are allocated, and
  its groups have different names.
\<close>

definition view :: "heap \<Rightarrow> cref \<Rightarrow> (string \<times> cref list) list" where
  "view h c = map (\<lambda>g. (gName (cgroups h ! g), cmds (cgroups h ! g))) (groups (commands h ! c))"

definition inv :: "heap \<Rightarrow> cref \<Rightarrow> bool" where
  "inv h c \<longleftrightarrow> c < length (commands h)
     \<and> (\<forall>g \<in> set (groups (commands h ! c)). g < length (cgroups h))
     \<and> distinct (map (\<lambda>g. gName (cgroups h ! g)) (groups (commands h ! c)))"

text \<open>The handles of a list of commands, and the entry of a key in the map of \<open>GetCommands\<close>.\<close>

definition handles :: "heap \<Rightarrow> cref list \<Rightarrow> fref option list" where
  "handles h rs = map (\<lambda>r. cmd (commands h ! r)) rs"

definition entries :: "(string \<rightharpoonup> fref option list) \<Rightarrow> string \<Rightarrow> fref option list" where
  "entries m k = (case m k of None \<Rightarrow> [] | Some l \<Rightarrow> l)"

section \<open>An example console\<close>

text \<open>
  The context \<open>ops\<close>: the root node (address 0) has the group \<open>""\<close> with the command
  \<open>status\<close> and the group \<open>admin\<close> with the commands \<open>drain\<close> (filter \<open>dangerous\<close>)
  and \<open>probe\<close> (never generated: its handle is \<open>nil\<close>). \<open>status\<close> has the subcommand
  \<open>detail\<close>, with the filter \<open>dangerous\<close> as well. Every generated handle is visible.
\<close>

definition exNode :: "string \<Rightarrow> string \<Rightarrow> string list \<Rightarrow> fref option \<Rightarrow> gref list \<Rightarrow> Command" where
  "exNode name gname flts f gs =
     (AddCommand_node name [] [] gname flts (Func 0))\<lparr>cmd := f, groups := gs\<rparr>"

definition exHandle :: "string \<Rightarrow> flagsCommand" where
  "exHandle name =
     \<lparr>fName = name, fShort = [], fLong = [], fData = Func 0, Hidden = False,
      fSubcommandsOptional = False\<rparr>"

definition exHeap :: heap where
  "exHeap =
     \<lparr>commands =
        [emptyCommand\<lparr>groups := [0, 1]\<rparr>,
         exNode ''status'' [] [] (Some 0) [2],
         exNode ''drain'' ''admin'' [''dangerous''] (Some 1) [],
         exNode ''probe'' ''admin'' [] None [],
         exNode ''detail'' [] [''dangerous''] (Some 2) []],
      cgroups =
        [\<lparr>gName = [], cmds = [1]\<rparr>,
         \<lparr>gName = ''admin'', cmds = [2, 3]\<rparr>,
         \<lparr>gName = [], cmds = [4]\<rparr>],
      fcmds = [exHandle ''status'', exHandle ''drain'', exHandle ''detail'']\<rparr>"

definition exConsole :: "(unit, unit) Console" where
  "exConsole =
     \<lparr>current = \<lparr>ctxName = ''ops'', ctxPrompt = (), ctxCmd = 0, parser = ()\<rparr>,
      filters = [''dangerous''], parserOpts = 0, config = None,
      cshell = \<lparr>shMultilinePrompt = [], shMultiline = False, shInputMode = Vim\<rparr>,
      PreOutputNewline = False\<rparr>"

definition exEmptyHeap :: heap where
  "exEmptyHeap = fst (newCommand \<lparr>commands = [], cgroups = [], fcmds = []\<rparr>)"

lemmas ex_defs =
  exHeap_def exConsole_def exNode_def exHandle_def AddCommand_node_def emptyCommand_def
  exEmptyHeap_def newCommand_def

section \<open>Properties of the filter set\<close>

lemma HideCommands_found_iff: "HideCommands_found flt fs \<longleftrightarrow> flt \<in> set fs"
  by (induction fs) auto

text \<open>
  C5. \<open>HideCommands\<close> is an idempotent add: a tag that is present leaves the console as
  it is, a tag that is absent is appended once at the end, and a second call with the
  same tag changes nothing.
\<close>

theorem HideCommands_idempotent:
  "(flt \<in> set (filters c) \<longrightarrow> HideCommands flt c = c)
   \<and> HideCommands flt (HideCommands flt c) = HideCommands flt c
   \<and> filters (HideCommands flt c) =
       (if flt \<in> set (filters c) then filters c else filters c @ [flt])"
  by (simp add: HideCommands_def HideCommands_filters_def HideCommands_found_iff)

theorem HideCommands_idempotent_witness:
  "''dangerous'' \<in> set (filters exConsole)
   \<and> HideCommands ''dangerous'' exConsole = exConsole
   \<and> filters (HideCommands ''windows'' (HideCommands ''windows'' exConsole))
       = [''dangerous'', ''windows'']"
  using HideCommands_idempotent [of "''dangerous''" exConsole]
    HideCommands_idempotent [of "''windows''" exConsole]
  by (simp add: exConsole_def)

text \<open>
  C6. \<open>ShowCommands\<close> on the filter set \<open>["", "a"]\<close> (the state after
  \<open>HideCommands("")\<close> and \<open>HideCommands("a")\<close>) with the tag \<open>""\<close>: the first iteration
  removes the tag and writes the zero value \<open>""\<close> into the freed last cell; the loop
  still runs to the old length, reads that cell, takes it for the tag again, and the
  slice expression \<open>c.filters[2:]\<close> on a slice of length 1 panics.
\<close>

theorem ShowCommands_empty_tag_panics:
  "ShowCommands [] (exConsole\<lparr>filters := [[], ''a'']\<rparr>) = Inl SliceBoundsOutOfRange"
  by (simp add: ShowCommands_def ShowCommands_filters_def ShowCommands_loop.simps copy_left_def)

end
